theory Spec2Isabelle
  imports Main
begin

section \<open>The MW4S socket wrapper of \<^verbatim>\<open>pypb/dist.py\<close>\<close>

text \<open>
  \<^verbatim>\<open>dist.py\<close> implements the pattern "multiple workers, single source, single sink" on
  ZeroMQ request/reply sockets. A \<^verbatim>\<open>Source\<close> hands tasks to workers on a reply socket,
  a \<^verbatim>\<open>Sink\<close> collects results on a reply socket, a \<^verbatim>\<open>Worker\<close> holds a request socket to
  each of them. The three classes are embedded here as records with one function per
  method; a method takes the object and returns how the call ended together with the
  object as the call left it.
\<close>

subsection \<open>Python objects on the wire\<close>

text \<open>
  \<^verbatim>\<open>send_pyobj\<close> and \<^verbatim>\<open>recv_pyobj\<close> move arbitrary Python objects. The code tells them apart
  with \<^verbatim>\<open>is None\<close> and \<^verbatim>\<open>isinstance\<close> against the four message classes, so an object is
  \<^verbatim>\<open>None\<close>, an instance of one of the four classes, or anything else (\<open>Payload\<close>).
\<close>

datatype 'a pyobj =
    PyNone
  | WorkerJoinMessage
  | WorkerExitedMessage
  | NoMoreJobsMessage
  | SourceExitedMessage
  | Payload 'a

text \<open>
  \<^verbatim>\<open>Error\<close> is the protocol error of the module; it is raised with one of two texts,
  \<^verbatim>\<open>"Invalid request {!r}"\<close> and \<^verbatim>\<open>"Invalid response {!r}"\<close>, around the offending object.
  \<^verbatim>\<open>StopIteration\<close> ends an iteration. \<open>ZMQError\<close> is what pyzmq raises when a socket
  that was closed is used again.
\<close>

datatype 'a error = Invalid_request "'a pyobj" | Invalid_response "'a pyobj"

datatype 'a exn = Error "'a error" | StopIteration | ZMQError

text \<open>
  A call returns, raises, or waits forever in a receive that no peer ever answers
  (\<open>Blocked\<close>): no operation of the module has a timeout.
\<close>

datatype ('a, 'r) result = Returned 'r | Raised "'a exn" | Blocked

subsection \<open>Sockets\<close>

text \<open>
  A socket is seen from the program that owns it: \<open>inbound\<close> holds the objects its peers
  deliver to it, in arrival order, that it has not received yet; \<open>outbound\<close> the objects
  it has sent, oldest first; \<open>released\<close> whether \<^verbatim>\<open>close()\<close> was called on it. A receive on
  an empty \<open>inbound\<close> never returns. The transport hands every object over as it was sent.
  Using a socket after \<^verbatim>\<open>close()\<close> raises \<open>ZMQError\<close>. The strict alternation of request and
  reply that ZeroMQ enforces on such sockets is not part of the model: the methods below
  keep to it on every path that returns.
\<close>

record 'a socket =
  address :: string
  inbound :: "'a pyobj list"
  outbound :: "'a pyobj list"
  released :: bool

definition rep_socket :: "string \<Rightarrow> 'a pyobj list \<Rightarrow> 'a socket" where
  "rep_socket addr peers = \<lparr>address = addr, inbound = peers, outbound = [], released = False\<rparr>"

definition req_socket :: "string \<Rightarrow> 'a pyobj list \<Rightarrow> 'a socket" where
  "req_socket addr peers = \<lparr>address = addr, inbound = peers, outbound = [], released = False\<rparr>"

definition recv_pyobj :: "'a socket \<Rightarrow> ('a, 'a pyobj) result \<times> 'a socket" where
  "recv_pyobj sk =
     (if released sk then (Raised ZMQError, sk)
      else case inbound sk of
             [] \<Rightarrow> (Blocked, sk)
           | m # ms \<Rightarrow> (Returned m, sk\<lparr>inbound := ms\<rparr>))"

definition send_pyobj :: "'a socket \<Rightarrow> 'a pyobj \<Rightarrow> ('a, unit) result \<times> 'a socket" where
  "send_pyobj sk m =
     (if released sk then (Raised ZMQError, sk)
      else (Returned (), sk\<lparr>outbound := outbound sk @ [m]\<rparr>))"

definition close_socket :: "'a socket \<Rightarrow> 'a socket" where
  "close_socket sk = sk\<lparr>released := True\<rparr>"

subsection \<open>Source\<close>

record 'a Source =
  saddr :: string
  taddr :: string
  ssock :: "'a socket"
  tsock :: "'a socket"
  nworkers :: int
  closed :: bool

definition Source_init :: "string \<Rightarrow> string \<Rightarrow> 'a pyobj list \<Rightarrow> 'a pyobj list \<Rightarrow> 'a Source" where
  "Source_init sa ta requests sink_replies =
     \<lparr>saddr = sa, taddr = ta,
      ssock = rep_socket sa requests,
      tsock = req_socket ta sink_replies,
      nworkers = 0, closed = False\<rparr>"

text \<open>\<^verbatim>\<open>Source.send\<close>: the \<^verbatim>\<open>while True\<close> loop is the recursion.\<close>

function Source_send :: "'a Source \<Rightarrow> 'a pyobj \<Rightarrow> ('a, unit) result \<times> 'a Source" where
  "Source_send s task =
     (case recv_pyobj (Source.ssock s) of
        (Returned req, sk) \<Rightarrow>
          (if req = PyNone then
             (case send_pyobj sk task of
                (r, sk') \<Rightarrow> (r, s\<lparr>Source.ssock := sk'\<rparr>))
           else if req = WorkerJoinMessage then
             (case send_pyobj sk PyNone of
                (Returned u, sk') \<Rightarrow>
                  Source_send (s\<lparr>Source.ssock := sk',
                                 Source.nworkers := Source.nworkers s + 1\<rparr>) task
              | (Raised e, sk') \<Rightarrow> (Raised e, s\<lparr>Source.ssock := sk'\<rparr>)
              | (Blocked, sk') \<Rightarrow> (Blocked, s\<lparr>Source.ssock := sk'\<rparr>))
           else if req = WorkerExitedMessage then
             (case send_pyobj sk PyNone of
                (Returned u, sk') \<Rightarrow>
                  Source_send (s\<lparr>Source.ssock := sk',
                                 Source.nworkers := Source.nworkers s - 1\<rparr>) task
              | (Raised e, sk') \<Rightarrow> (Raised e, s\<lparr>Source.ssock := sk'\<rparr>)
              | (Blocked, sk') \<Rightarrow> (Blocked, s\<lparr>Source.ssock := sk'\<rparr>))
           else (Raised (Error (Invalid_request req)), s\<lparr>Source.ssock := sk\<rparr>))
      | (Raised e, sk) \<Rightarrow> (Raised e, s)
      | (Blocked, sk) \<Rightarrow> (Blocked, s))"
  by pat_completeness auto
termination
  by (relation "measure (\<lambda>(s, task). length (inbound (Source.ssock s)))")
     (auto simp: recv_pyobj_def send_pyobj_def split: if_splits list.splits)

text \<open>The \<^verbatim>\<open>while self.nworkers > 0\<close> loop of \<^verbatim>\<open>Source.close\<close>.\<close>

function Source_close_loop :: "'a Source \<Rightarrow> ('a, unit) result \<times> 'a Source" where
  "Source_close_loop s =
     (if Source.nworkers s > 0 then
        (case recv_pyobj (Source.ssock s) of
           (Returned req, sk) \<Rightarrow>
             (if req = PyNone then
                (case send_pyobj sk NoMoreJobsMessage of
                   (Returned u, sk') \<Rightarrow> Source_close_loop (s\<lparr>Source.ssock := sk'\<rparr>)
                 | (Raised e, sk') \<Rightarrow> (Raised e, s\<lparr>Source.ssock := sk'\<rparr>)
                 | (Blocked, sk') \<Rightarrow> (Blocked, s\<lparr>Source.ssock := sk'\<rparr>))
              else if req = WorkerJoinMessage then
                (case send_pyobj sk PyNone of
                   (Returned u, sk') \<Rightarrow>
                     Source_close_loop (s\<lparr>Source.ssock := sk',
                                          Source.nworkers := Source.nworkers s + 1\<rparr>)
                 | (Raised e, sk') \<Rightarrow> (Raised e, s\<lparr>Source.ssock := sk'\<rparr>)
                 | (Blocked, sk') \<Rightarrow> (Blocked, s\<lparr>Source.ssock := sk'\<rparr>))
              else if req = WorkerExitedMessage then
                (case send_pyobj sk PyNone of
                   (Returned u, sk') \<Rightarrow>
                     Source_close_loop (s\<lparr>Source.ssock := sk',
                                          Source.nworkers := Source.nworkers s - 1\<rparr>)
                 | (Raised e, sk') \<Rightarrow> (Raised e, s\<lparr>Source.ssock := sk'\<rparr>)
                 | (Blocked, sk') \<Rightarrow> (Blocked, s\<lparr>Source.ssock := sk'\<rparr>))
              else (Raised (Error (Invalid_request req)), s\<lparr>Source.ssock := sk\<rparr>))
         | (Raised e, sk) \<Rightarrow> (Raised e, s)
         | (Blocked, sk) \<Rightarrow> (Blocked, s))
      else (Returned (), s))"
  by pat_completeness auto
termination
  by (relation "measure (\<lambda>s. length (inbound (Source.ssock s)))")
     (auto simp: recv_pyobj_def send_pyobj_def split: if_splits list.splits)

text \<open>
  What follows the loop in \<^verbatim>\<open>Source.close\<close>: tell the sink that the source has exited,
  require \<^verbatim>\<open>None\<close> back, close both sockets.
\<close>

definition Source_inform_sink :: "'a Source \<Rightarrow> ('a, unit) result \<times> 'a Source" where
  "Source_inform_sink s =
     (case send_pyobj (Source.tsock s) SourceExitedMessage of
        (Returned u, tk) \<Rightarrow>
          (case recv_pyobj tk of
             (Returned rep, tk') \<Rightarrow>
               (if rep \<noteq> PyNone then
                  (Raised (Error (Invalid_response rep)), s\<lparr>Source.tsock := tk'\<rparr>)
                else
                  (Returned (), s\<lparr>Source.tsock := close_socket tk',
                                   Source.ssock := close_socket (Source.ssock s)\<rparr>))
           | (Raised e, tk') \<Rightarrow> (Raised e, s\<lparr>Source.tsock := tk'\<rparr>)
           | (Blocked, tk') \<Rightarrow> (Blocked, s\<lparr>Source.tsock := tk'\<rparr>))
      | (Raised e, tk) \<Rightarrow> (Raised e, s\<lparr>Source.tsock := tk\<rparr>)
      | (Blocked, tk) \<Rightarrow> (Blocked, s\<lparr>Source.tsock := tk\<rparr>))"

definition Source_close :: "'a Source \<Rightarrow> ('a, unit) result \<times> 'a Source" where
  "Source_close s =
     (if Source.closed s then (Returned (), s)
      else case Source_close_loop (s\<lparr>Source.closed := True\<rparr>) of
             (Returned u, s1) \<Rightarrow> Source_inform_sink s1
           | (Raised e, s1) \<Rightarrow> (Raised e, s1)
           | (Blocked, s1) \<Rightarrow> (Blocked, s1))"

subsection \<open>Sink\<close>

record 'a Sink =
  taddr :: string
  tsock :: "'a socket"
  nworkers :: int
  source_closed :: bool
  closed :: bool

definition Sink_init :: "string \<Rightarrow> 'a pyobj list \<Rightarrow> 'a Sink" where
  "Sink_init ta posts =
     \<lparr>taddr = ta, tsock = rep_socket ta posts,
      nworkers = 0, source_closed = False, closed = False\<rparr>"

text \<open>\<^verbatim>\<open>Sink.next\<close>: every object received is answered with \<^verbatim>\<open>None\<close> before it is looked at.\<close>

function Sink_next :: "'a Sink \<Rightarrow> ('a, 'a pyobj) result \<times> 'a Sink" where
  "Sink_next s =
     (if \<not> Sink.source_closed s \<or> Sink.nworkers s > 0 then
        (case recv_pyobj (Sink.tsock s) of
           (Returned result, sk) \<Rightarrow>
             (case send_pyobj sk PyNone of
                (Returned u, sk') \<Rightarrow>
                  (if result = WorkerJoinMessage then
                     Sink_next (s\<lparr>Sink.tsock := sk', Sink.nworkers := Sink.nworkers s + 1\<rparr>)
                   else if result = WorkerExitedMessage then
                     Sink_next (s\<lparr>Sink.tsock := sk', Sink.nworkers := Sink.nworkers s - 1\<rparr>)
                   else if result = SourceExitedMessage then
                     Sink_next (s\<lparr>Sink.tsock := sk', Sink.source_closed := True\<rparr>)
                   else (Returned result, s\<lparr>Sink.tsock := sk'\<rparr>))
              | (Raised e, sk') \<Rightarrow> (Raised e, s\<lparr>Sink.tsock := sk'\<rparr>)
              | (Blocked, sk') \<Rightarrow> (Blocked, s\<lparr>Sink.tsock := sk'\<rparr>))
         | (Raised e, sk) \<Rightarrow> (Raised e, s)
         | (Blocked, sk) \<Rightarrow> (Blocked, s))
      else (Raised StopIteration, s))"
  by pat_completeness auto
termination
  by (relation "measure (\<lambda>s. length (inbound (Sink.tsock s)))")
     (auto simp: recv_pyobj_def send_pyobj_def split: if_splits list.splits)


text \<open>
  \<^verbatim>\<open>Sink.close\<close>. The \<^verbatim>\<open>time.sleep(CLOSESYNC)\<close> between setting the flag and closing the
  socket changes no field of the object and no socket; time is not part of this model.
\<close>

definition Sink_close :: "'a Sink \<Rightarrow> ('a, unit) result \<times> 'a Sink" where
  "Sink_close s =
     (if Sink.closed s then (Returned (), s)
      else (Returned (), s\<lparr>Sink.closed := True,
                            Sink.tsock := close_socket (Sink.tsock s)\<rparr>))"

subsection \<open>Worker\<close>

record 'a Worker =
  saddr :: string
  taddr :: string
  ssock :: "'a socket"
  tsock :: "'a socket"
  closed :: bool

text \<open>
  The exchange every worker method repeats: send one object on a request socket, receive
  the reply, raise \<^verbatim>\<open>Error\<close> unless the reply \<^verbatim>\<open>is None\<close>.
\<close>

definition request_ack :: "'a socket \<Rightarrow> 'a pyobj \<Rightarrow> ('a, unit) result \<times> 'a socket" where
  "request_ack sk m =
     (case send_pyobj sk m of
        (Returned u, sk1) \<Rightarrow>
          (case recv_pyobj sk1 of
             (Returned rep, sk2) \<Rightarrow>
               (if rep \<noteq> PyNone then (Raised (Error (Invalid_response rep)), sk2)
                else (Returned (), sk2))
           | (Raised e, sk2) \<Rightarrow> (Raised e, sk2)
           | (Blocked, sk2) \<Rightarrow> (Blocked, sk2))
      | (Raised e, sk1) \<Rightarrow> (Raised e, sk1)
      | (Blocked, sk1) \<Rightarrow> (Blocked, sk1))"

text \<open>
  \<^verbatim>\<open>Worker.__init__\<close>. The second component is \<^verbatim>\<open>self\<close> as the constructor left it; when the
  result is not \<open>Returned\<close> the expression \<^verbatim>\<open>Worker(saddr, taddr)\<close> has no value and the
  caller holds no worker.
\<close>

definition Worker_init ::
  "string \<Rightarrow> string \<Rightarrow> 'a pyobj list \<Rightarrow> 'a pyobj list \<Rightarrow> ('a, unit) result \<times> 'a Worker" where
  "Worker_init sa ta source_replies sink_replies =
     (let w = \<lparr>saddr = sa, taddr = ta,
               ssock = req_socket sa source_replies,
               tsock = req_socket ta sink_replies,
               closed = False\<rparr>
      in case request_ack (Worker.ssock w) WorkerJoinMessage of
           (Returned u, sk) \<Rightarrow>
             (case request_ack (Worker.tsock w) WorkerJoinMessage of
                (r, tk) \<Rightarrow> (r, w\<lparr>Worker.ssock := sk, Worker.tsock := tk\<rparr>))
         | (Raised e, sk) \<Rightarrow> (Raised e, w\<lparr>Worker.ssock := sk\<rparr>)
         | (Blocked, sk) \<Rightarrow> (Blocked, w\<lparr>Worker.ssock := sk\<rparr>))"



definition Worker_close :: "'a Worker \<Rightarrow> ('a, unit) result \<times> 'a Worker" where
  "Worker_close w =
     (if Worker.closed w then (Returned (), w)
      else let w1 = w\<lparr>Worker.closed := True\<rparr>
           in case request_ack (Worker.ssock w1) WorkerExitedMessage of
                (Returned u, sk) \<Rightarrow>
                  (case request_ack (Worker.tsock w1) WorkerExitedMessage of
                     (r, tk) \<Rightarrow> (r, w1\<lparr>Worker.ssock := sk, Worker.tsock := tk\<rparr>))
              | (Raised e, sk) \<Rightarrow> (Raised e, w1\<lparr>Worker.ssock := sk\<rparr>)
              | (Blocked, sk) \<Rightarrow> (Blocked, w1\<lparr>Worker.ssock := sk\<rparr>))"

section \<open>Properties\<close>

subsection \<open>Sockets, one operation at a time\<close>

declare Source_send.simps [simp del]
declare Source_close_loop.simps [simp del]
declare Sink_next.simps [simp del]

lemma recv_pyobj_open:
  "\<not> released sk \<Longrightarrow> inbound sk = m # ms \<Longrightarrow> recv_pyobj sk = (Returned m, sk\<lparr>inbound := ms\<rparr>)"
  by (simp add: recv_pyobj_def)

lemma recv_pyobj_empty:
  "\<not> released sk \<Longrightarrow> inbound sk = [] \<Longrightarrow> recv_pyobj sk = (Blocked, sk)"
  by (simp add: recv_pyobj_def)

lemma recv_pyobj_released:
  "released sk \<Longrightarrow> recv_pyobj sk = (Raised ZMQError, sk)"
  by (simp add: recv_pyobj_def)

lemma send_pyobj_open:
  "\<not> released sk \<Longrightarrow> send_pyobj sk m = (Returned (), sk\<lparr>outbound := outbound sk @ [m]\<rparr>)"
  by (simp add: send_pyobj_def)

lemma send_pyobj_released:
  "released sk \<Longrightarrow> send_pyobj sk m = (Raised ZMQError, sk)"
  by (simp add: send_pyobj_def)

subsection \<open>One pass through the loop of \<^verbatim>\<open>Source.send\<close>, and a run of passes\<close>

lemma Source_send_released:
  "released (Source.ssock s) \<Longrightarrow> Source_send s task = (Raised ZMQError, s)"
  by (subst Source_send.simps) (simp add: recv_pyobj_released)

lemma Source_send_empty:
  "\<not> released (Source.ssock s) \<Longrightarrow> inbound (Source.ssock s) = [] \<Longrightarrow>
   Source_send s task = (Blocked, s)"
  by (subst Source_send.simps) (simp add: recv_pyobj_empty)

lemma Source_send_recv:
  "\<not> released (Source.ssock s) \<Longrightarrow> inbound (Source.ssock s) = m # ms \<Longrightarrow>
   Source_send s task =
     (if m = PyNone then
        (Returned (), s\<lparr>Source.ssock := (Source.ssock s)
            \<lparr>inbound := ms, outbound := outbound (Source.ssock s) @ [task]\<rparr>\<rparr>)
      else if m = WorkerJoinMessage then
        Source_send (s\<lparr>Source.ssock := (Source.ssock s)
            \<lparr>inbound := ms, outbound := outbound (Source.ssock s) @ [PyNone]\<rparr>,
          Source.nworkers := Source.nworkers s + 1\<rparr>) task
      else if m = WorkerExitedMessage then
        Source_send (s\<lparr>Source.ssock := (Source.ssock s)
            \<lparr>inbound := ms, outbound := outbound (Source.ssock s) @ [PyNone]\<rparr>,
          Source.nworkers := Source.nworkers s - 1\<rparr>) task
      else (Raised (Error (Invalid_request m)),
            s\<lparr>Source.ssock := (Source.ssock s)\<lparr>inbound := ms\<rparr>\<rparr>))"
  by (subst Source_send.simps) (simp add: recv_pyobj_open send_pyobj_open)

text \<open>A run of join and exit messages at the head of the queue.\<close>

lemma Source_send_run:
  "set ms \<subseteq> {WorkerJoinMessage, WorkerExitedMessage} \<Longrightarrow>
   \<not> released (Source.ssock s) \<Longrightarrow> inbound (Source.ssock s) = ms @ rest \<Longrightarrow>
   Source_send s task =
     Source_send (s\<lparr>Source.ssock := (Source.ssock s)
         \<lparr>inbound := rest, outbound := outbound (Source.ssock s) @ replicate (length ms) PyNone\<rparr>,
       Source.nworkers := Source.nworkers s + int (count_list ms WorkerJoinMessage)
                           - int (count_list ms WorkerExitedMessage)\<rparr>) task"
proof (induction ms arbitrary: s)
  case Nil
  then have "rest = inbound (Source.ssock s)" by simp
  then show ?case by simp
next
  case (Cons m ms)
  from Cons.prems(1) have m: "m = WorkerJoinMessage \<or> m = WorkerExitedMessage"
    and ms: "set ms \<subseteq> {WorkerJoinMessage, WorkerExitedMessage}" by auto
  from Cons.prems(3) have hd: "inbound (Source.ssock s) = m # (ms @ rest)" by simp
  define s1 where "s1 = s\<lparr>Source.ssock := (Source.ssock s)
       \<lparr>inbound := ms @ rest, outbound := outbound (Source.ssock s) @ [PyNone]\<rparr>,
     Source.nworkers := Source.nworkers s + (if m = WorkerJoinMessage then 1 else - 1)\<rparr>"
  have "Source_send s task = Source_send s1 task"
    using m by (auto simp: Source_send_recv [OF Cons.prems(2) hd] s1_def)
  also have "\<dots> = Source_send (s1\<lparr>Source.ssock := (Source.ssock s1)
         \<lparr>inbound := rest, outbound := outbound (Source.ssock s1) @ replicate (length ms) PyNone\<rparr>,
       Source.nworkers := Source.nworkers s1 + int (count_list ms WorkerJoinMessage)
                           - int (count_list ms WorkerExitedMessage)\<rparr>) task"
    using Cons.prems(2) by (intro Cons.IH [OF ms]) (simp_all add: s1_def)
  finally show ?case
    using m by (auto simp: s1_def replicate_app_Cons_same algebra_simps)
qed


subsection \<open>The drain loop of \<^verbatim>\<open>Source.close\<close>\<close>

lemma Source_close_loop_done:
  "Source.nworkers s \<le> 0 \<Longrightarrow> Source_close_loop s = (Returned (), s)"
  by (subst Source_close_loop.simps) simp

lemma Source_close_loop_released:
  "0 < Source.nworkers s \<Longrightarrow> released (Source.ssock s) \<Longrightarrow>
   Source_close_loop s = (Raised ZMQError, s)"
  by (subst Source_close_loop.simps) (simp add: recv_pyobj_released)

lemma Source_close_loop_empty:
  "0 < Source.nworkers s \<Longrightarrow> \<not> released (Source.ssock s) \<Longrightarrow>
   inbound (Source.ssock s) = [] \<Longrightarrow> Source_close_loop s = (Blocked, s)"
  by (subst Source_close_loop.simps) (simp add: recv_pyobj_empty)

lemma Source_close_loop_recv:
  "0 < Source.nworkers s \<Longrightarrow> \<not> released (Source.ssock s) \<Longrightarrow>
   inbound (Source.ssock s) = m # ms \<Longrightarrow>
   Source_close_loop s =
     (if m = PyNone then
        Source_close_loop (s\<lparr>Source.ssock := (Source.ssock s)
            \<lparr>inbound := ms, outbound := outbound (Source.ssock s) @ [NoMoreJobsMessage]\<rparr>\<rparr>)
      else if m = WorkerJoinMessage then
        Source_close_loop (s\<lparr>Source.ssock := (Source.ssock s)
            \<lparr>inbound := ms, outbound := outbound (Source.ssock s) @ [PyNone]\<rparr>,
          Source.nworkers := Source.nworkers s + 1\<rparr>)
      else if m = WorkerExitedMessage then
        Source_close_loop (s\<lparr>Source.ssock := (Source.ssock s)
            \<lparr>inbound := ms, outbound := outbound (Source.ssock s) @ [PyNone]\<rparr>,
          Source.nworkers := Source.nworkers s - 1\<rparr>)
      else (Raised (Error (Invalid_request m)),
            s\<lparr>Source.ssock := (Source.ssock s)\<lparr>inbound := ms\<rparr>\<rparr>))"
  by (subst Source_close_loop.simps) (simp add: recv_pyobj_open send_pyobj_open)

text \<open>What the drain loop leaves alone, and what it answers.\<close>

lemma Source_close_loop_frame:
  "inbound (Source.ssock s) = ms \<Longrightarrow> Source_close_loop s = (res, s') \<Longrightarrow>
   Source.tsock s' = Source.tsock s \<and> Source.closed s' = Source.closed s \<and>
   released (Source.ssock s') = released (Source.ssock s) \<and>
   (res = Returned () \<longrightarrow> Source.nworkers s' \<le> 0)"
proof (induction ms arbitrary: s)
  case Nil
  have "Source_close_loop s = (Returned (), s) \<and> Source.nworkers s \<le> 0
      \<or> Source_close_loop s = (Raised ZMQError, s) \<or> Source_close_loop s = (Blocked, s)"
    using Nil(1) Source_close_loop_done [of s] Source_close_loop_released [of s]
      Source_close_loop_empty [of s] by fastforce
  with Nil(2) show ?case by auto
next
  case (Cons m ms)
  show ?case
  proof (cases "0 < Source.nworkers s \<and> \<not> released (Source.ssock s)")
    case False
    then have "Source_close_loop s = (Returned (), s) \<and> Source.nworkers s \<le> 0
       \<or> Source_close_loop s = (Raised ZMQError, s)"
      using Source_close_loop_done [of s] Source_close_loop_released [of s] by fastforce
    with Cons.prems(2) show ?thesis by auto
  next
    case True
    then have step: "Source_close_loop s = (res, s')" and
      rc: "0 < Source.nworkers s" "\<not> released (Source.ssock s)"
      using Cons.prems(2) by auto
    show ?thesis
    proof (cases "m \<in> {PyNone, WorkerJoinMessage, WorkerExitedMessage}")
      case False
      with step show ?thesis
        by (auto simp: Source_close_loop_recv [OF rc Cons.prems(1)])
    next
      case True
      with step obtain s1 where s1: "Source_close_loop s1 = (res, s')"
        "inbound (Source.ssock s1) = ms" "Source.tsock s1 = Source.tsock s"
        "Source.closed s1 = Source.closed s"
        "released (Source.ssock s1) = released (Source.ssock s)"
        by (auto simp: Source_close_loop_recv [OF rc Cons.prems(1)] split: if_splits)
      from Cons.IH [OF s1(2) s1(1)] s1(3-5) show ?thesis by simp
    qed
  qed
qed


subsection \<open>One pass through the loop of \<^verbatim>\<open>Sink.next\<close>, and a run of passes\<close>

lemma Sink_next_exhausted:
  "Sink.source_closed s \<Longrightarrow> Sink.nworkers s \<le> 0 \<Longrightarrow> Sink_next s = (Raised StopIteration, s)"
  by (subst Sink_next.simps) simp

lemma Sink_next_released:
  "\<not> Sink.source_closed s \<or> Sink.nworkers s > 0 \<Longrightarrow> released (Sink.tsock s) \<Longrightarrow>
   Sink_next s = (Raised ZMQError, s)"
  by (subst Sink_next.simps) (simp add: recv_pyobj_released)

lemma Sink_next_empty:
  "\<not> Sink.source_closed s \<or> Sink.nworkers s > 0 \<Longrightarrow> \<not> released (Sink.tsock s) \<Longrightarrow>
   inbound (Sink.tsock s) = [] \<Longrightarrow> Sink_next s = (Blocked, s)"
  by (subst Sink_next.simps) (simp add: recv_pyobj_empty)

lemma Sink_next_recv:
  "\<not> Sink.source_closed s \<or> Sink.nworkers s > 0 \<Longrightarrow> \<not> released (Sink.tsock s) \<Longrightarrow>
   inbound (Sink.tsock s) = m # ms \<Longrightarrow>
   Sink_next s =
     (if m = WorkerJoinMessage then
        Sink_next (s\<lparr>Sink.tsock := (Sink.tsock s)
            \<lparr>inbound := ms, outbound := outbound (Sink.tsock s) @ [PyNone]\<rparr>,
          Sink.nworkers := Sink.nworkers s + 1\<rparr>)
      else if m = WorkerExitedMessage then
        Sink_next (s\<lparr>Sink.tsock := (Sink.tsock s)
            \<lparr>inbound := ms, outbound := outbound (Sink.tsock s) @ [PyNone]\<rparr>,
          Sink.nworkers := Sink.nworkers s - 1\<rparr>)
      else if m = SourceExitedMessage then
        Sink_next (s\<lparr>Sink.tsock := (Sink.tsock s)
            \<lparr>inbound := ms, outbound := outbound (Sink.tsock s) @ [PyNone]\<rparr>,
          Sink.source_closed := True\<rparr>)
      else (Returned m, s\<lparr>Sink.tsock := (Sink.tsock s)
            \<lparr>inbound := ms, outbound := outbound (Sink.tsock s) @ [PyNone]\<rparr>\<rparr>))"
  by (subst Sink_next.simps) (simp add: recv_pyobj_open send_pyobj_open)

lemma Sink_next_run:
  "set ms \<subseteq> {WorkerJoinMessage, WorkerExitedMessage} \<Longrightarrow> \<not> Sink.source_closed s \<Longrightarrow>
   \<not> released (Sink.tsock s) \<Longrightarrow> inbound (Sink.tsock s) = ms @ rest \<Longrightarrow>
   Sink_next s =
     Sink_next (s\<lparr>Sink.tsock := (Sink.tsock s)
         \<lparr>inbound := rest, outbound := outbound (Sink.tsock s) @ replicate (length ms) PyNone\<rparr>,
       Sink.nworkers := Sink.nworkers s + int (count_list ms WorkerJoinMessage)
                         - int (count_list ms WorkerExitedMessage)\<rparr>)"
proof (induction ms arbitrary: s)
  case Nil
  then have "rest = inbound (Sink.tsock s)" by simp
  then show ?case by simp
next
  case (Cons m ms)
  from Cons.prems(1) have m: "m = WorkerJoinMessage \<or> m = WorkerExitedMessage"
    and ms: "set ms \<subseteq> {WorkerJoinMessage, WorkerExitedMessage}" by auto
  from Cons.prems(4) have hd: "inbound (Sink.tsock s) = m # (ms @ rest)" by simp
  from Cons.prems(2) have go: "\<not> Sink.source_closed s \<or> Sink.nworkers s > 0" by simp
  define s1 where "s1 = s\<lparr>Sink.tsock := (Sink.tsock s)
       \<lparr>inbound := ms @ rest, outbound := outbound (Sink.tsock s) @ [PyNone]\<rparr>,
     Sink.nworkers := Sink.nworkers s + (if m = WorkerJoinMessage then 1 else - 1)\<rparr>"
  have "Sink_next s = Sink_next s1"
    using m by (auto simp: Sink_next_recv [OF go Cons.prems(3) hd] s1_def)
  also have "\<dots> = Sink_next (s1\<lparr>Sink.tsock := (Sink.tsock s1)
         \<lparr>inbound := rest, outbound := outbound (Sink.tsock s1) @ replicate (length ms) PyNone\<rparr>,
       Sink.nworkers := Sink.nworkers s1 + int (count_list ms WorkerJoinMessage)
                         - int (count_list ms WorkerExitedMessage)\<rparr>)"
    using Cons.prems(2,3) by (intro Cons.IH [OF ms]) (simp_all add: s1_def)
  finally show ?case
    using m by (auto simp: s1_def replicate_app_Cons_same algebra_simps)
qed

text \<open>
  What one call of \<^verbatim>\<open>Sink.next\<close> takes from its queue: the first \<open>k\<close> messages, each answered
  with \<^verbatim>\<open>None\<close>; all of them join, exit or source-exit messages, but for the last one when
  the call returns, which is then the value returned.
\<close>

lemma Sink_next_consumed:
  "inbound (Sink.tsock s) = ms \<Longrightarrow> Sink_next s = (res, s') \<Longrightarrow>
   \<exists>k\<le>length ms.
     inbound (Sink.tsock s') = drop k ms \<and>
     outbound (Sink.tsock s') = outbound (Sink.tsock s) @ replicate k PyNone \<and>
     filter (\<lambda>m. m \<notin> {WorkerJoinMessage, WorkerExitedMessage, SourceExitedMessage})
        (take k ms) = (case res of Returned r \<Rightarrow> [r] | _ \<Rightarrow> []) \<and>
     ((\<not> Sink.source_closed s \<or> Sink.nworkers s > 0) \<and> \<not> released (Sink.tsock s) \<and>
        ms \<noteq> [] \<longrightarrow> 0 < k)"
proof (induction ms arbitrary: s)
  case Nil
  have "Sink_next s = (Raised StopIteration, s) \<or> Sink_next s = (Raised ZMQError, s)
      \<or> Sink_next s = (Blocked, s)"
    using Nil(1) Sink_next_exhausted [of s] Sink_next_released [of s] Sink_next_empty [of s]
    by fastforce
  with Nil show ?case by auto
next
  case (Cons m ms)
  show ?case
  proof (cases "(\<not> Sink.source_closed s \<or> Sink.nworkers s > 0) \<and> \<not> released (Sink.tsock s)")
    case False
    then have "Sink_next s = (Raised StopIteration, s) \<or> Sink_next s = (Raised ZMQError, s)"
      using Sink_next_exhausted [of s] Sink_next_released [of s] by fastforce
    with Cons.prems False show ?thesis by (intro exI [of _ 0]) auto
  next
    case True
    then have go: "\<not> Sink.source_closed s \<or> Sink.nworkers s > 0"
      and op: "\<not> released (Sink.tsock s)" by auto
    note step = Sink_next_recv [OF go op Cons.prems(1)]
    show ?thesis
    proof (cases "m \<in> {WorkerJoinMessage, WorkerExitedMessage, SourceExitedMessage}")
      case False
      with step Cons.prems(2) have "res = Returned m"
        "s' = s\<lparr>Sink.tsock := (Sink.tsock s)
            \<lparr>inbound := ms, outbound := outbound (Sink.tsock s) @ [PyNone]\<rparr>\<rparr>"
        by auto
      with False show ?thesis
        by (intro exI [of _ "Suc 0"]) auto
    next
      case ctl: True
      with step Cons.prems(2) obtain s1 where
        s1: "Sink_next s1 = (res, s')" "inbound (Sink.tsock s1) = ms"
          "outbound (Sink.tsock s1) = outbound (Sink.tsock s) @ [PyNone]"
        by (auto split: if_splits)
      from Cons.IH [OF s1(2,1)] obtain k where
        "k \<le> length ms" "inbound (Sink.tsock s') = drop k ms"
        "outbound (Sink.tsock s') = outbound (Sink.tsock s1) @ replicate k PyNone"
        "filter (\<lambda>m. m \<notin> {WorkerJoinMessage, WorkerExitedMessage, SourceExitedMessage})
           (take k ms) = (case res of Returned r \<Rightarrow> [r] | _ \<Rightarrow> [])"
        by blast
      with ctl s1(3) show ?thesis
        by (intro exI [of _ "Suc k"]) (auto simp: replicate_app_Cons_same)
    qed
  qed
qed

lemma Sink_next_StopIteration_state:
  "inbound (Sink.tsock s) = ms \<Longrightarrow> Sink_next s = (Raised StopIteration, s') \<Longrightarrow>
   Sink.source_closed s' \<and> Sink.nworkers s' \<le> 0"
proof (induction ms arbitrary: s)
  case Nil
  show ?case
  proof (cases "Sink.source_closed s \<and> Sink.nworkers s \<le> 0")
    case True
    with Nil(2) show ?thesis by (simp add: Sink_next_exhausted)
  next
    case False
    then have go: "\<not> Sink.source_closed s \<or> Sink.nworkers s > 0" by auto
    with Nil show ?thesis
      using Sink_next_released [OF go] Sink_next_empty [OF go]
      by (cases "released (Sink.tsock s)") auto
  qed
next
  case (Cons m ms)
  show ?case
  proof (cases "Sink.source_closed s \<and> Sink.nworkers s \<le> 0")
    case True
    with Cons.prems(2) show ?thesis by (simp add: Sink_next_exhausted)
  next
    case False
    then have go: "\<not> Sink.source_closed s \<or> Sink.nworkers s > 0" by auto
    show ?thesis
    proof (cases "released (Sink.tsock s)")
      case True
      with Cons.prems(2) show ?thesis using Sink_next_released [OF go] by simp
    next
      case False
      from Cons.prems(2) obtain s1 where "Sink_next s1 = (Raised StopIteration, s')"
        "inbound (Sink.tsock s1) = ms"
        by (auto simp: Sink_next_recv [OF go False Cons.prems(1)] split: if_splits)
      from Cons.IH [OF this(2,1)] show ?thesis .
    qed
  qed
qed

subsection \<open>What \<^verbatim>\<open>Source.send\<close> does with its queue\<close>

text \<open>
  Claim C6. \<^verbatim>\<open>Source.send(task)\<close> services the requests on its reply socket until a plain
  request (\<^verbatim>\<open>None\<close>) arrives, answers that one with the task and returns. Every
  \<^verbatim>\<open>WorkerJoinMessage\<close> before it is answered with \<^verbatim>\<open>None\<close> and adds one to the worker count,
  every \<^verbatim>\<open>WorkerExitedMessage\<close> is answered with \<^verbatim>\<open>None\<close> and takes one away; any other
  request raises \<^verbatim>\<open>Error\<close> and gets no answer; while no plain request has arrived the call
  blocks.
\<close>

theorem Source_send_serves_until_task_request:
  assumes "set ms \<subseteq> {WorkerJoinMessage, WorkerExitedMessage}"
    and "\<not> released (Source.ssock s)"
  shows "(inbound (Source.ssock s) = ms @ PyNone # rest \<longrightarrow>
           Source_send s task =
             (Returned (),
              s\<lparr>Source.ssock := (Source.ssock s)
                   \<lparr>inbound := rest,
                    outbound := outbound (Source.ssock s) @ replicate (length ms) PyNone @ [task]\<rparr>,
                 Source.nworkers := Source.nworkers s + int (count_list ms WorkerJoinMessage)
                                     - int (count_list ms WorkerExitedMessage)\<rparr>)) \<and>
         (inbound (Source.ssock s) = ms @ m # rest \<and>
            m \<notin> {PyNone, WorkerJoinMessage, WorkerExitedMessage} \<longrightarrow>
           Source_send s task =
             (Raised (Error (Invalid_request m)),
              s\<lparr>Source.ssock := (Source.ssock s)
                   \<lparr>inbound := rest,
                    outbound := outbound (Source.ssock s) @ replicate (length ms) PyNone\<rparr>,
                 Source.nworkers := Source.nworkers s + int (count_list ms WorkerJoinMessage)
                                     - int (count_list ms WorkerExitedMessage)\<rparr>)) \<and>
         (inbound (Source.ssock s) = ms \<longrightarrow>
           Source_send s task =
             (Blocked,
              s\<lparr>Source.ssock := (Source.ssock s)
                   \<lparr>inbound := [],
                    outbound := outbound (Source.ssock s) @ replicate (length ms) PyNone\<rparr>,
                 Source.nworkers := Source.nworkers s + int (count_list ms WorkerJoinMessage)
                                     - int (count_list ms WorkerExitedMessage)\<rparr>))"
proof (intro conjI impI)
  assume "inbound (Source.ssock s) = ms @ PyNone # rest"
  from Source_send_run [OF assms this, of task] show "Source_send s task =
     (Returned (),
      s\<lparr>Source.ssock := (Source.ssock s)
           \<lparr>inbound := rest,
            outbound := outbound (Source.ssock s) @ replicate (length ms) PyNone @ [task]\<rparr>,
         Source.nworkers := Source.nworkers s + int (count_list ms WorkerJoinMessage)
                             - int (count_list ms WorkerExitedMessage)\<rparr>)"
    using assms(2) by (simp add: Source_send_recv)
next
  assume "inbound (Source.ssock s) = ms @ m # rest \<and>
    m \<notin> {PyNone, WorkerJoinMessage, WorkerExitedMessage}"
  then have q: "inbound (Source.ssock s) = ms @ m # rest"
    and m: "m \<notin> {PyNone, WorkerJoinMessage, WorkerExitedMessage}" by auto
  from Source_send_run [OF assms q, of task] show "Source_send s task =
     (Raised (Error (Invalid_request m)),
      s\<lparr>Source.ssock := (Source.ssock s)
           \<lparr>inbound := rest,
            outbound := outbound (Source.ssock s) @ replicate (length ms) PyNone\<rparr>,
         Source.nworkers := Source.nworkers s + int (count_list ms WorkerJoinMessage)
                             - int (count_list ms WorkerExitedMessage)\<rparr>)"
    using assms(2) m by (simp add: Source_send_recv)
next
  assume "inbound (Source.ssock s) = ms"
  then have "inbound (Source.ssock s) = ms @ []" by simp
  from Source_send_run [OF assms this, of task] show "Source_send s task =
     (Blocked,
      s\<lparr>Source.ssock := (Source.ssock s)
           \<lparr>inbound := [],
            outbound := outbound (Source.ssock s) @ replicate (length ms) PyNone\<rparr>,
         Source.nworkers := Source.nworkers s + int (count_list ms WorkerJoinMessage)
                             - int (count_list ms WorkerExitedMessage)\<rparr>)"
    using assms(2) by (simp add: Source_send_empty)
qed

theorem Source_send_serves_until_task_request_witness:
  "Source_send (Source_init ''tcp://a'' ''tcp://b''
       [WorkerJoinMessage, WorkerJoinMessage, WorkerExitedMessage, PyNone, PyNone] [])
     (Payload ''job-1'') =
   (Returned (),
    \<lparr>Source.saddr = ''tcp://a'', taddr = ''tcp://b'',
     ssock = \<lparr>address = ''tcp://a'', inbound = [PyNone],
              outbound = [PyNone, PyNone, PyNone, Payload ''job-1''], released = False\<rparr>,
     tsock = \<lparr>address = ''tcp://b'', inbound = [], outbound = [], released = False\<rparr>,
     nworkers = 1, closed = False\<rparr>) \<and>
   Source_send (Source_init ''tcp://a'' ''tcp://b''
       [WorkerJoinMessage, SourceExitedMessage, PyNone] [])
     (Payload ''job-1'') =
   (Raised (Error (Invalid_request SourceExitedMessage)),
    \<lparr>Source.saddr = ''tcp://a'', taddr = ''tcp://b'',
     ssock = \<lparr>address = ''tcp://a'', inbound = [PyNone],
              outbound = [PyNone], released = False\<rparr>,
     tsock = \<lparr>address = ''tcp://b'', inbound = [], outbound = [], released = False\<rparr>,
     nworkers = 1, closed = False\<rparr>) \<and>
   Source_send (Source_init ''tcp://a'' ''tcp://b'' [WorkerJoinMessage] [])
     (Payload ''job-1'') =
   (Blocked,
    \<lparr>Source.saddr = ''tcp://a'', taddr = ''tcp://b'',
     ssock = \<lparr>address = ''tcp://a'', inbound = [],
              outbound = [PyNone], released = False\<rparr>,
     tsock = \<lparr>address = ''tcp://b'', inbound = [], outbound = [], released = False\<rparr>,
     nworkers = 1, closed = False\<rparr>)"
proof (intro conjI)
  show "Source_send (Source_init ''tcp://a'' ''tcp://b''
       [WorkerJoinMessage, WorkerJoinMessage, WorkerExitedMessage, PyNone, PyNone] [])
     (Payload ''job-1'') =
   (Returned (),
    \<lparr>Source.saddr = ''tcp://a'', taddr = ''tcp://b'',
     ssock = \<lparr>address = ''tcp://a'', inbound = [PyNone],
              outbound = [PyNone, PyNone, PyNone, Payload ''job-1''], released = False\<rparr>,
     tsock = \<lparr>address = ''tcp://b'', inbound = [], outbound = [], released = False\<rparr>,
     nworkers = 1, closed = False\<rparr>)"
    using Source_send_serves_until_task_request
      [of "[WorkerJoinMessage, WorkerJoinMessage, WorkerExitedMessage]"
        "Source_init ''tcp://a'' ''tcp://b''
          [WorkerJoinMessage, WorkerJoinMessage, WorkerExitedMessage, PyNone, PyNone] []"
        "[PyNone]" "Payload ''job-1''" PyNone]
    by (simp add: Source_init_def rep_socket_def req_socket_def)
  show "Source_send (Source_init ''tcp://a'' ''tcp://b''
       [WorkerJoinMessage, SourceExitedMessage, PyNone] [])
     (Payload ''job-1'') =
   (Raised (Error (Invalid_request SourceExitedMessage)),
    \<lparr>Source.saddr = ''tcp://a'', taddr = ''tcp://b'',
     ssock = \<lparr>address = ''tcp://a'', inbound = [PyNone],
              outbound = [PyNone], released = False\<rparr>,
     tsock = \<lparr>address = ''tcp://b'', inbound = [], outbound = [], released = False\<rparr>,
     nworkers = 1, closed = False\<rparr>)"
    using Source_send_serves_until_task_request
      [of "[WorkerJoinMessage]"
        "Source_init ''tcp://a'' ''tcp://b'' [WorkerJoinMessage, SourceExitedMessage, PyNone] []"
        "[PyNone]" "Payload ''job-1''" SourceExitedMessage]
    by (simp add: Source_init_def rep_socket_def req_socket_def)
  show "Source_send (Source_init ''tcp://a'' ''tcp://b'' [WorkerJoinMessage] [])
     (Payload ''job-1'') =
   (Blocked,
    \<lparr>Source.saddr = ''tcp://a'', taddr = ''tcp://b'',
     ssock = \<lparr>address = ''tcp://a'', inbound = [],
              outbound = [PyNone], released = False\<rparr>,
     tsock = \<lparr>address = ''tcp://b'', inbound = [], outbound = [], released = False\<rparr>,
     nworkers = 1, closed = False\<rparr>)"
    using Source_send_serves_until_task_request
      [of "[WorkerJoinMessage]"
        "Source_init ''tcp://a'' ''tcp://b'' [WorkerJoinMessage] []"
        "[]" "Payload ''job-1''" PyNone]
    by (simp add: Source_init_def rep_socket_def req_socket_def)
qed

subsection \<open>The worker counts\<close>

text \<open>
  Claim C2, as stated: for any sequence of N joins and M exits delivered to the source
  (or the sink) with N at least M, the count is N - M and is never negative at any point.
  It fails where an exit is delivered before the join that balances it: neither loop
  guards the decrement. Here the source and the sink are each sent one exit and then one
  join (N = M = 1); between the two messages each holds a count of -1, which the caller
  sees when \<^verbatim>\<open>send\<close> (respectively \<^verbatim>\<open>next\<close>) returns.
\<close>

theorem worker_count_negative_counterexample:
  "Source.nworkers (snd (Source_send
       (Source_init ''tcp://a'' ''tcp://b''
          [WorkerExitedMessage, PyNone, WorkerJoinMessage, PyNone] [])
       (Payload ''job-1''))) = - 1 \<and>
   Source.nworkers (snd (Source_send (snd (Source_send
       (Source_init ''tcp://a'' ''tcp://b''
          [WorkerExitedMessage, PyNone, WorkerJoinMessage, PyNone] [])
       (Payload ''job-1''))) (Payload ''job-2''))) = 0 \<and>
   Sink.nworkers (snd (Sink_next
       (Sink_init ''tcp://b''
          [WorkerExitedMessage, Payload ''result-1'', WorkerJoinMessage, Payload ''result-2'']))) = - 1 \<and>
   Sink.nworkers (snd (Sink_next (snd (Sink_next
       (Sink_init ''tcp://b''
          [WorkerExitedMessage, Payload ''result-1'', WorkerJoinMessage, Payload ''result-2'']))))) = 0"
  by code_simp

text \<open>
  Claim C2, amended. Whatever joins and exits \<^verbatim>\<open>Source.send\<close> receives before the plain
  request that makes it return (respectively \<^verbatim>\<open>Sink.next\<close>, on a sink that has not seen the
  source exit, before the result that makes it return), in any order and whether or not
  the joins outnumber the exits, the count it leaves is the count it found plus the joins
  minus the exits: N - M from a fresh object. That count is non-negative exactly when the
  exits received so far do not outnumber the count at the start plus the joins received
  so far; nothing in the code keeps it from being negative otherwise. Since the sequence
  is arbitrary, this holds at the point after every prefix of a longer sequence.
\<close>

theorem worker_count_joins_minus_exits:
  assumes "set ms \<subseteq> {WorkerJoinMessage, WorkerExitedMessage}"
  shows "(\<not> released (Source.ssock s) \<and> inbound (Source.ssock s) = ms @ PyNone # rest \<longrightarrow>
            Source.nworkers (snd (Source_send s task)) =
              Source.nworkers s + int (count_list ms WorkerJoinMessage)
                - int (count_list ms WorkerExitedMessage) \<and>
            (0 \<le> Source.nworkers (snd (Source_send s task))) =
              (int (count_list ms WorkerExitedMessage)
                 \<le> Source.nworkers s + int (count_list ms WorkerJoinMessage))) \<and>
         (\<not> released (Sink.tsock k) \<and> \<not> Sink.source_closed k \<and>
          inbound (Sink.tsock k) = ms @ Payload r # rest \<longrightarrow>
            fst (Sink_next k) = Returned (Payload r) \<and>
            Sink.nworkers (snd (Sink_next k)) =
              Sink.nworkers k + int (count_list ms WorkerJoinMessage)
                - int (count_list ms WorkerExitedMessage) \<and>
            (0 \<le> Sink.nworkers (snd (Sink_next k))) =
              (int (count_list ms WorkerExitedMessage)
                 \<le> Sink.nworkers k + int (count_list ms WorkerJoinMessage)))"
proof (intro conjI impI)
  assume a: "\<not> released (Source.ssock s) \<and> inbound (Source.ssock s) = ms @ PyNone # rest"
  then have "Source.nworkers (snd (Source_send s task)) =
      Source.nworkers s + int (count_list ms WorkerJoinMessage)
        - int (count_list ms WorkerExitedMessage)"
    using Source_send_run [OF assms, of s "PyNone # rest" task]
    by (simp add: Source_send_recv)
  then show "Source.nworkers (snd (Source_send s task)) =
      Source.nworkers s + int (count_list ms WorkerJoinMessage)
        - int (count_list ms WorkerExitedMessage)"
    and "(0 \<le> Source.nworkers (snd (Source_send s task))) =
      (int (count_list ms WorkerExitedMessage)
         \<le> Source.nworkers s + int (count_list ms WorkerJoinMessage))"
    by auto
next
  assume b: "\<not> released (Sink.tsock k) \<and> \<not> Sink.source_closed k \<and>
    inbound (Sink.tsock k) = ms @ Payload r # rest"
  then have run: "Sink_next k =
      (Returned (Payload r),
       k\<lparr>Sink.tsock := (Sink.tsock k)
            \<lparr>inbound := rest,
             outbound := outbound (Sink.tsock k) @ replicate (length ms) PyNone @ [PyNone]\<rparr>,
          Sink.nworkers := Sink.nworkers k + int (count_list ms WorkerJoinMessage)
                            - int (count_list ms WorkerExitedMessage)\<rparr>)"
    using Sink_next_run [OF assms, of k "Payload r # rest"]
    by (simp add: Sink_next_recv)
  then show "fst (Sink_next k) = Returned (Payload r)"
    and "Sink.nworkers (snd (Sink_next k)) =
      Sink.nworkers k + int (count_list ms WorkerJoinMessage)
        - int (count_list ms WorkerExitedMessage)"
    and "(0 \<le> Sink.nworkers (snd (Sink_next k))) =
      (int (count_list ms WorkerExitedMessage)
         \<le> Sink.nworkers k + int (count_list ms WorkerJoinMessage))"
    by auto
qed

theorem worker_count_joins_minus_exits_witness:
  "Source.nworkers (snd (Source_send
       (Source_init ''tcp://a'' ''tcp://b''
          [WorkerJoinMessage, WorkerExitedMessage, WorkerJoinMessage, WorkerJoinMessage, PyNone] [])
       (Payload ''job-1''))) = 2 \<and>
   Sink.nworkers (snd (Sink_next
       (Sink_init ''tcp://b''
          [WorkerJoinMessage, WorkerExitedMessage, WorkerJoinMessage, WorkerJoinMessage,
           Payload ''result-1'']))) = 2"
proof
  show "Source.nworkers (snd (Source_send
       (Source_init ''tcp://a'' ''tcp://b''
          [WorkerJoinMessage, WorkerExitedMessage, WorkerJoinMessage, WorkerJoinMessage, PyNone] [])
       (Payload ''job-1''))) = 2"
    using worker_count_joins_minus_exits
      [of "[WorkerJoinMessage, WorkerExitedMessage, WorkerJoinMessage, WorkerJoinMessage]"
        "Source_init ''tcp://a'' ''tcp://b''
          [WorkerJoinMessage, WorkerExitedMessage, WorkerJoinMessage, WorkerJoinMessage, PyNone] []"
        "[]" "Payload ''job-1''" "Sink_init ''tcp://b'' []" "''x''"]
    by (simp add: Source_init_def rep_socket_def req_socket_def)
  show "Sink.nworkers (snd (Sink_next
       (Sink_init ''tcp://b''
          [WorkerJoinMessage, WorkerExitedMessage, WorkerJoinMessage, WorkerJoinMessage,
           Payload ''result-1'']))) = 2"
    using worker_count_joins_minus_exits
      [of "[WorkerJoinMessage, WorkerExitedMessage, WorkerJoinMessage, WorkerJoinMessage]"
        "Source_init ''tcp://a'' ''tcp://b'' [] []"
        "[]" "Payload ''job-1''"
        "Sink_init ''tcp://b''
          [WorkerJoinMessage, WorkerExitedMessage, WorkerJoinMessage, WorkerJoinMessage,
           Payload ''result-1'']" "''result-1''"]
    by (simp add: Sink_init_def rep_socket_def)
qed

subsection \<open>When the sink's sequence ends\<close>

text \<open>
  Claim C5, as stated: the sequence is exhausted if and only if the source-closed flag is
  true and the worker count is 0. The loop test is \<^verbatim>\<open>not self.source_closed or
  self.nworkers > 0\<close>, so a count below 0 ends the sequence as well. A fresh sink that
  receives an exit and then the source's exit holds the count -1 and raises
  \<^verbatim>\<open>StopIteration\<close>.
\<close>

theorem Sink_exhausted_below_zero_counterexample:
  "fst (Sink_next (Sink_init ''tcp://b'' [WorkerExitedMessage, SourceExitedMessage]))
     = (Raised StopIteration :: (string, string pyobj) result) \<and>
   Sink.source_closed (snd (Sink_next
     (Sink_init ''tcp://b'' [WorkerExitedMessage, SourceExitedMessage :: string pyobj]))) \<and>
   Sink.nworkers (snd (Sink_next
     (Sink_init ''tcp://b'' [WorkerExitedMessage, SourceExitedMessage :: string pyobj]))) \<noteq> 0"
  by code_simp

text \<open>
  Claim C5, amended. \<^verbatim>\<open>Sink.next\<close> raises \<^verbatim>\<open>StopIteration\<close> exactly when the source-closed flag
  is true and the worker count is not positive (0, or below), and the test is made
  before each receive: a sink in that state raises at once, receiving nothing and
  changing nothing; a call that raises \<^verbatim>\<open>StopIteration\<close> after receiving some messages
  leaves the sink in that state; and a sink not in that state goes to its socket, where
  it blocks on an empty queue and otherwise takes the first message and answers it with
  \<^verbatim>\<open>None\<close>.
\<close>

theorem Sink_next_exhausted_iff:
  "(Sink_next s = (Raised StopIteration, s)) = (Sink.source_closed s \<and> Sink.nworkers s \<le> 0) \<and>
   (fst (Sink_next s) = Raised StopIteration \<longrightarrow>
      Sink.source_closed (snd (Sink_next s)) \<and> Sink.nworkers (snd (Sink_next s)) \<le> 0) \<and>
   (\<not> (Sink.source_closed s \<and> Sink.nworkers s \<le> 0) \<and> \<not> released (Sink.tsock s) \<longrightarrow>
      (inbound (Sink.tsock s) = [] \<longrightarrow> Sink_next s = (Blocked, s)) \<and>
      (inbound (Sink.tsock s) \<noteq> [] \<longrightarrow>
         (\<exists>n. inbound (Sink.tsock (snd (Sink_next s))) = drop (Suc n) (inbound (Sink.tsock s)) \<and>
              outbound (Sink.tsock (snd (Sink_next s))) =
                outbound (Sink.tsock s) @ replicate (Suc n) PyNone)))"
proof (intro conjI impI)
  show "(Sink_next s = (Raised StopIteration, s)) =
      (Sink.source_closed s \<and> Sink.nworkers s \<le> 0)"
    using Sink_next_StopIteration_state [of s _ s] Sink_next_exhausted [of s] by blast
next
  assume "fst (Sink_next s) = Raised StopIteration"
  then have "Sink_next s = (Raised StopIteration, snd (Sink_next s))"
    by (metis prod.collapse)
  from Sink_next_StopIteration_state [OF refl this]
  show "Sink.source_closed (snd (Sink_next s))" and "Sink.nworkers (snd (Sink_next s)) \<le> 0"
    by auto
next
  assume a: "\<not> (Sink.source_closed s \<and> Sink.nworkers s \<le> 0) \<and> \<not> released (Sink.tsock s)"
    and e: "inbound (Sink.tsock s) = []"
  then show "Sink_next s = (Blocked, s)"
    by (intro Sink_next_empty) auto
next
  assume a: "\<not> (Sink.source_closed s \<and> Sink.nworkers s \<le> 0) \<and> \<not> released (Sink.tsock s)"
    and ne: "inbound (Sink.tsock s) \<noteq> []"
  then have "(\<not> Sink.source_closed s \<or> Sink.nworkers s > 0) \<and> \<not> released (Sink.tsock s) \<and>
      inbound (Sink.tsock s) \<noteq> []" by auto
  with Sink_next_consumed [OF refl prod.collapse [symmetric], of s]
  obtain k where "0 < k"
    "inbound (Sink.tsock (snd (Sink_next s))) = drop k (inbound (Sink.tsock s))"
    "outbound (Sink.tsock (snd (Sink_next s))) = outbound (Sink.tsock s) @ replicate k PyNone"
    by blast
  then show "\<exists>n. inbound (Sink.tsock (snd (Sink_next s))) = drop (Suc n) (inbound (Sink.tsock s)) \<and>
      outbound (Sink.tsock (snd (Sink_next s))) =
        outbound (Sink.tsock s) @ replicate (Suc n) PyNone"
    by (intro exI [of _ "k - 1"]) simp
qed

theorem Sink_next_exhausted_iff_witness:
  "Sink_next \<lparr>Sink.taddr = ''tcp://b'',
      tsock = \<lparr>address = ''tcp://b'', inbound = [Payload ''late''], outbound = [],
               released = False\<rparr>,
      nworkers = 0, source_closed = True, closed = False\<rparr> =
   (Raised StopIteration,
    \<lparr>Sink.taddr = ''tcp://b'',
      tsock = \<lparr>address = ''tcp://b'', inbound = [Payload ''late''], outbound = [],
               released = False\<rparr>,
      nworkers = 0, source_closed = True, closed = False\<rparr>) \<and>
   Sink_next (Sink_init ''tcp://b'' ([] :: string pyobj list)) =
     (Blocked, Sink_init ''tcp://b'' [])"
proof
  show "Sink_next \<lparr>Sink.taddr = ''tcp://b'',
      tsock = \<lparr>address = ''tcp://b'', inbound = [Payload ''late''], outbound = [],
               released = False\<rparr>,
      nworkers = 0, source_closed = True, closed = False\<rparr> =
   (Raised StopIteration,
    \<lparr>Sink.taddr = ''tcp://b'',
      tsock = \<lparr>address = ''tcp://b'', inbound = [Payload ''late''], outbound = [],
               released = False\<rparr>,
      nworkers = 0, source_closed = True, closed = False\<rparr>)"
    using Sink_next_exhausted_iff
      [of "\<lparr>Sink.taddr = ''tcp://b'',
      tsock = \<lparr>address = ''tcp://b'', inbound = [Payload ''late''], outbound = [],
               released = False\<rparr>,
      nworkers = 0, source_closed = True, closed = False\<rparr>"]
    by simp
  show "Sink_next (Sink_init ''tcp://b'' ([] :: string pyobj list)) =
     (Blocked, Sink_init ''tcp://b'' [])"
    using Sink_next_exhausted_iff [of "Sink_init ''tcp://b'' ([] :: string pyobj list)"]
    by (simp add: Sink_init_def rep_socket_def)
qed

subsection \<open>The worker's handshakes\<close>

lemma request_ack_ok:
  "\<not> released sk \<Longrightarrow> inbound sk = PyNone # rs \<Longrightarrow>
   request_ack sk m = (Returned (), sk\<lparr>inbound := rs, outbound := outbound sk @ [m]\<rparr>)"
  by (simp add: request_ack_def send_pyobj_def recv_pyobj_def)

lemma request_ack_bad:
  "\<not> released sk \<Longrightarrow> inbound sk = r # rs \<Longrightarrow> r \<noteq> PyNone \<Longrightarrow>
   request_ack sk m =
     (Raised (Error (Invalid_response r)), sk\<lparr>inbound := rs, outbound := outbound sk @ [m]\<rparr>)"
  by (simp add: request_ack_def send_pyobj_def recv_pyobj_def)

lemma request_ack_blocked:
  "\<not> released sk \<Longrightarrow> inbound sk = [] \<Longrightarrow>
   request_ack sk m = (Blocked, sk\<lparr>outbound := outbound sk @ [m]\<rparr>)"
  by (simp add: request_ack_def send_pyobj_def recv_pyobj_def)

lemma request_ack_released:
  "released sk \<Longrightarrow> request_ack sk m = (Raised ZMQError, sk)"
  by (simp add: request_ack_def send_pyobj_def)

text \<open>
  Claim C7. A worker that sends \<^verbatim>\<open>WorkerJoinMessage\<close> (in its constructor) or
  \<^verbatim>\<open>WorkerExitedMessage\<close> (in \<^verbatim>\<open>close\<close>) and gets back anything but \<^verbatim>\<open>None\<close> raises \<^verbatim>\<open>Error\<close> with
  that reply, and does nothing further: after a bad reply from the source nothing is
  sent to the sink. A constructor that raises gives its caller no worker, so no task is
  ever requested through it.
\<close>

theorem Worker_handshake_requires_ack:
  "(r \<noteq> PyNone \<longrightarrow>
      fst (Worker_init sa ta (r # rs) ks) = Raised (Error (Invalid_response r)) \<and>
      outbound (Worker.ssock (snd (Worker_init sa ta (r # rs) ks))) = [WorkerJoinMessage] \<and>
      outbound (Worker.tsock (snd (Worker_init sa ta (r # rs) ks))) = []) \<and>
   (r \<noteq> PyNone \<longrightarrow>
      fst (Worker_init sa ta (PyNone # rs) (r # ks)) = Raised (Error (Invalid_response r)) \<and>
      outbound (Worker.ssock (snd (Worker_init sa ta (PyNone # rs) (r # ks)))) =
        [WorkerJoinMessage] \<and>
      outbound (Worker.tsock (snd (Worker_init sa ta (PyNone # rs) (r # ks)))) =
        [WorkerJoinMessage]) \<and>
   (\<not> Worker.closed w \<and> \<not> released (Worker.ssock w) \<and> inbound (Worker.ssock w) = r # rs \<and>
    r \<noteq> PyNone \<longrightarrow>
      fst (Worker_close w) = Raised (Error (Invalid_response r)) \<and>
      outbound (Worker.ssock (snd (Worker_close w))) =
        outbound (Worker.ssock w) @ [WorkerExitedMessage] \<and>
      Worker.tsock (snd (Worker_close w)) = Worker.tsock w) \<and>
   (\<not> Worker.closed w \<and> \<not> released (Worker.ssock w) \<and> inbound (Worker.ssock w) = PyNone # rs \<and>
    \<not> released (Worker.tsock w) \<and> inbound (Worker.tsock w) = r # ks \<and> r \<noteq> PyNone \<longrightarrow>
      fst (Worker_close w) = Raised (Error (Invalid_response r)))"
proof (intro conjI impI)
  assume r: "r \<noteq> PyNone"
  have "request_ack (req_socket sa (r # rs)) WorkerJoinMessage =
      (Raised (Error (Invalid_response r)),
       (req_socket sa (r # rs))\<lparr>inbound := rs, outbound := [WorkerJoinMessage]\<rparr>)"
    using request_ack_bad [of "req_socket sa (r # rs)" r rs WorkerJoinMessage] r
    by (simp add: req_socket_def)
  then have "Worker_init sa ta (r # rs) ks =
      (Raised (Error (Invalid_response r)),
       \<lparr>Worker.saddr = sa, taddr = ta,
        ssock = (req_socket sa (r # rs))\<lparr>inbound := rs, outbound := [WorkerJoinMessage]\<rparr>,
        tsock = req_socket ta ks, closed = False\<rparr>)"
    by (simp add: Worker_init_def)
  then show "fst (Worker_init sa ta (r # rs) ks) = Raised (Error (Invalid_response r))"
    and "outbound (Worker.ssock (snd (Worker_init sa ta (r # rs) ks))) = [WorkerJoinMessage]"
    and "outbound (Worker.tsock (snd (Worker_init sa ta (r # rs) ks))) = []"
    by (simp_all add: req_socket_def)
next
  assume r: "r \<noteq> PyNone"
  have 1: "request_ack (req_socket sa (PyNone # rs)) WorkerJoinMessage =
      (Returned (), (req_socket sa (PyNone # rs))\<lparr>inbound := rs, outbound := [WorkerJoinMessage]\<rparr>)"
    using request_ack_ok [of "req_socket sa (PyNone # rs)" rs WorkerJoinMessage]
    by (simp add: req_socket_def)
  have 2: "request_ack (req_socket ta (r # ks)) WorkerJoinMessage =
      (Raised (Error (Invalid_response r)),
       (req_socket ta (r # ks))\<lparr>inbound := ks, outbound := [WorkerJoinMessage]\<rparr>)"
    using request_ack_bad [of "req_socket ta (r # ks)" r ks WorkerJoinMessage] r
    by (simp add: req_socket_def)
  from 1 2 have "Worker_init sa ta (PyNone # rs) (r # ks) =
      (Raised (Error (Invalid_response r)),
       \<lparr>Worker.saddr = sa, taddr = ta,
        ssock = (req_socket sa (PyNone # rs))\<lparr>inbound := rs, outbound := [WorkerJoinMessage]\<rparr>,
        tsock = (req_socket ta (r # ks))\<lparr>inbound := ks, outbound := [WorkerJoinMessage]\<rparr>,
        closed = False\<rparr>)"
    by (simp add: Worker_init_def)
  then show "fst (Worker_init sa ta (PyNone # rs) (r # ks)) = Raised (Error (Invalid_response r))"
    and "outbound (Worker.ssock (snd (Worker_init sa ta (PyNone # rs) (r # ks)))) =
        [WorkerJoinMessage]"
    and "outbound (Worker.tsock (snd (Worker_init sa ta (PyNone # rs) (r # ks)))) =
        [WorkerJoinMessage]"
    by simp_all
next
  assume a: "\<not> Worker.closed w \<and> \<not> released (Worker.ssock w) \<and>
    inbound (Worker.ssock w) = r # rs \<and> r \<noteq> PyNone"
  then have "Worker_close w =
      (Raised (Error (Invalid_response r)),
       w\<lparr>Worker.closed := True,
         Worker.ssock := (Worker.ssock w)
           \<lparr>inbound := rs, outbound := outbound (Worker.ssock w) @ [WorkerExitedMessage]\<rparr>\<rparr>)"
    by (simp add: Worker_close_def request_ack_bad)
  then show "fst (Worker_close w) = Raised (Error (Invalid_response r))"
    and "outbound (Worker.ssock (snd (Worker_close w))) =
        outbound (Worker.ssock w) @ [WorkerExitedMessage]"
    and "Worker.tsock (snd (Worker_close w)) = Worker.tsock w"
    by simp_all
next
  assume "\<not> Worker.closed w \<and> \<not> released (Worker.ssock w) \<and>
    inbound (Worker.ssock w) = PyNone # rs \<and>
    \<not> released (Worker.tsock w) \<and> inbound (Worker.tsock w) = r # ks \<and> r \<noteq> PyNone"
  then show "fst (Worker_close w) = Raised (Error (Invalid_response r))"
    by (simp add: Worker_close_def request_ack_ok request_ack_bad)
qed

theorem Worker_handshake_requires_ack_witness:
  "fst (Worker_init ''tcp://a'' ''tcp://b'' [NoMoreJobsMessage] [PyNone]) =
     (Raised (Error (Invalid_response NoMoreJobsMessage)) :: (string, unit) result) \<and>
   fst (Worker_init ''tcp://a'' ''tcp://b'' [PyNone] [Payload ''busy'']) =
     Raised (Error (Invalid_response (Payload ''busy''))) \<and>
   fst (Worker_close
     \<lparr>Worker.saddr = ''tcp://a'', taddr = ''tcp://b'',
      ssock = \<lparr>address = ''tcp://a'', inbound = [Payload ''no''], outbound = [],
               released = False\<rparr>,
      tsock = \<lparr>address = ''tcp://b'', inbound = [PyNone], outbound = [], released = False\<rparr>,
      closed = False\<rparr>) = Raised (Error (Invalid_response (Payload ''no''))) \<and>
   fst (Worker_close
     \<lparr>Worker.saddr = ''tcp://a'', taddr = ''tcp://b'',
      ssock = \<lparr>address = ''tcp://a'', inbound = [PyNone], outbound = [], released = False\<rparr>,
      tsock = \<lparr>address = ''tcp://b'', inbound = [Payload ''no''], outbound = [],
               released = False\<rparr>,
      closed = False\<rparr>) = Raised (Error (Invalid_response (Payload ''no'')))"
proof (intro conjI)
  show "fst (Worker_init ''tcp://a'' ''tcp://b'' [NoMoreJobsMessage] [PyNone]) =
     (Raised (Error (Invalid_response NoMoreJobsMessage)) :: (string, unit) result)"
    using Worker_handshake_requires_ack
      [of NoMoreJobsMessage "''tcp://a''" "''tcp://b''" "[]" "[PyNone :: string pyobj]"]
    by simp
  show "fst (Worker_init ''tcp://a'' ''tcp://b'' [PyNone] [Payload ''busy'']) =
     Raised (Error (Invalid_response (Payload ''busy'')))"
    using Worker_handshake_requires_ack
      [of "Payload ''busy''" "''tcp://a''" "''tcp://b''" "[]" "[]"]
    by simp
  show "fst (Worker_close
     \<lparr>Worker.saddr = ''tcp://a'', taddr = ''tcp://b'',
      ssock = \<lparr>address = ''tcp://a'', inbound = [Payload ''no''], outbound = [],
               released = False\<rparr>,
      tsock = \<lparr>address = ''tcp://b'', inbound = [PyNone], outbound = [], released = False\<rparr>,
      closed = False\<rparr>) = Raised (Error (Invalid_response (Payload ''no'')))"
    using Worker_handshake_requires_ack
      [of "Payload ''no''" _ _ "[]" _
        "\<lparr>Worker.saddr = ''tcp://a'', taddr = ''tcp://b'',
      ssock = \<lparr>address = ''tcp://a'', inbound = [Payload ''no''], outbound = [],
               released = False\<rparr>,
      tsock = \<lparr>address = ''tcp://b'', inbound = [PyNone], outbound = [], released = False\<rparr>,
      closed = False\<rparr>"]
    by simp
  show "fst (Worker_close
     \<lparr>Worker.saddr = ''tcp://a'', taddr = ''tcp://b'',
      ssock = \<lparr>address = ''tcp://a'', inbound = [PyNone], outbound = [], released = False\<rparr>,
      tsock = \<lparr>address = ''tcp://b'', inbound = [Payload ''no''], outbound = [],
               released = False\<rparr>,
      closed = False\<rparr>) = Raised (Error (Invalid_response (Payload ''no'')))"
    using Worker_handshake_requires_ack
      [of "Payload ''no''" _ _ "[]" "[]"
        "\<lparr>Worker.saddr = ''tcp://a'', taddr = ''tcp://b'',
      ssock = \<lparr>address = ''tcp://a'', inbound = [PyNone], outbound = [], released = False\<rparr>,
      tsock = \<lparr>address = ''tcp://b'', inbound = [Payload ''no''], outbound = [],
               released = False\<rparr>,
      closed = False\<rparr>"]
    by simp
qed

subsection \<open>Closing\<close>

lemma Source_inform_sink_frame:
  "Source.closed (snd (Source_inform_sink s)) = Source.closed s \<and>
   Source.nworkers (snd (Source_inform_sink s)) = Source.nworkers s \<and>
   inbound (Source.ssock (snd (Source_inform_sink s))) = inbound (Source.ssock s) \<and>
   outbound (Source.ssock (snd (Source_inform_sink s))) = outbound (Source.ssock s) \<and>
   (fst (Source_inform_sink s) \<noteq> Returned () \<longrightarrow>
      Source.ssock (snd (Source_inform_sink s)) = Source.ssock s \<and>
      released (Source.tsock (snd (Source_inform_sink s))) = released (Source.tsock s)) \<and>
   (fst (Source_inform_sink s) = Returned () \<longrightarrow>
      released (Source.ssock (snd (Source_inform_sink s))) \<and>
      released (Source.tsock (snd (Source_inform_sink s))))"
  by (simp add: Source_inform_sink_def send_pyobj_def recv_pyobj_def close_socket_def
           split: list.splits)

lemma Source_close_open:
  "\<not> Source.closed s \<Longrightarrow> Source_close_loop (s\<lparr>Source.closed := True\<rparr>) = (res, s1) \<Longrightarrow>
   Source_close s = (if res = Returned () then Source_inform_sink s1 else (res, s1))"
  by (cases res) (simp_all add: Source_close_def)

lemma Source_close_again:
  "Source.closed s \<Longrightarrow> Source_close s = (Returned (), s)"
  by (simp add: Source_close_def)

lemma Source_close_sets_closed: "Source.closed (snd (Source_close s))"
proof (cases "Source.closed s")
  case True
  then show ?thesis by (simp add: Source_close_again)
next
  case False
  obtain res s1 where l: "Source_close_loop (s\<lparr>Source.closed := True\<rparr>) = (res, s1)"
    by fastforce
  from Source_close_loop_frame [OF refl l] have "Source.closed s1" by simp
  with Source_close_open [OF False l] Source_inform_sink_frame [of s1]
  show ?thesis by (simp split: if_splits)
qed

lemma Worker_close_sets_closed: "Worker.closed (snd (Worker_close w))"
  by (simp add: Worker_close_def Let_def split: prod.splits result.splits)

lemma Sink_close_sets_closed: "Sink.closed (snd (Sink_close k))"
  by (simp add: Sink_close_def)

text \<open>
  Claim C8. \<^verbatim>\<open>close()\<close> is idempotent on all three roles: on an object whose closed flag
  is set it returns at once, sends nothing and changes nothing; and whatever a first
  \<^verbatim>\<open>close()\<close> did, and however it ended, it left the flag set, so a second one is such a
  call.
\<close>

theorem close_idempotent:
  "(Source.closed s \<longrightarrow> Source_close s = (Returned (), s)) \<and>
   Source_close (snd (Source_close s)) = (Returned (), snd (Source_close s)) \<and>
   (Sink.closed k \<longrightarrow> Sink_close k = (Returned (), k)) \<and>
   Sink_close (snd (Sink_close k)) = (Returned (), snd (Sink_close k)) \<and>
   (Worker.closed w \<longrightarrow> Worker_close w = (Returned (), w)) \<and>
   Worker_close (snd (Worker_close w)) = (Returned (), snd (Worker_close w))"
proof (intro conjI impI)
  show "Source_close (snd (Source_close s)) = (Returned (), snd (Source_close s))"
    using Source_close_sets_closed by (rule Source_close_again)
  show "Sink_close (snd (Sink_close k)) = (Returned (), snd (Sink_close k))"
    by (simp add: Sink_close_def)
  show "Worker_close (snd (Worker_close w)) = (Returned (), snd (Worker_close w))"
    using Worker_close_sets_closed [of w] by (simp add: Worker_close_def)
qed (simp_all add: Source_close_def Sink_close_def Worker_close_def)

theorem close_idempotent_witness:
  "Source_close (snd (Source_close (Source_init ''tcp://a'' ''tcp://b''
       [WorkerJoinMessage, PyNone, WorkerExitedMessage] [PyNone :: string pyobj]))) =
     (Returned (), snd (Source_close (Source_init ''tcp://a'' ''tcp://b''
       [WorkerJoinMessage, PyNone, WorkerExitedMessage] [PyNone]))) \<and>
   Sink_close ((Sink_init ''tcp://b'' [Payload ''late''])\<lparr>Sink.closed := True\<rparr>) =
     (Returned (), (Sink_init ''tcp://b'' [Payload ''late''])\<lparr>Sink.closed := True\<rparr>) \<and>
   Worker_close
     \<lparr>Worker.saddr = ''tcp://a'', taddr = ''tcp://b'',
      ssock = \<lparr>address = ''tcp://a'', inbound = [PyNone], outbound = [], released = False\<rparr>,
      tsock = \<lparr>address = ''tcp://b'', inbound = [PyNone], outbound = [], released = False\<rparr>,
      closed = True\<rparr> =
     (Returned (),
      \<lparr>Worker.saddr = ''tcp://a'', taddr = ''tcp://b'',
       ssock = \<lparr>address = ''tcp://a'', inbound = [PyNone :: string pyobj], outbound = [],
                released = False\<rparr>,
       tsock = \<lparr>address = ''tcp://b'', inbound = [PyNone], outbound = [], released = False\<rparr>,
       closed = True\<rparr>)"
proof -
  note inst = close_idempotent [of "Source_init ''tcp://a'' ''tcp://b''
       [WorkerJoinMessage, PyNone, WorkerExitedMessage] [PyNone :: string pyobj]"
      "(Sink_init ''tcp://b'' [Payload ''late''])\<lparr>Sink.closed := True\<rparr>"
      "\<lparr>Worker.saddr = ''tcp://a'', taddr = ''tcp://b'',
       ssock = \<lparr>address = ''tcp://a'', inbound = [PyNone :: string pyobj], outbound = [],
                released = False\<rparr>,
       tsock = \<lparr>address = ''tcp://b'', inbound = [PyNone], outbound = [], released = False\<rparr>,
       closed = True\<rparr>"]
  from inst show ?thesis by simp
qed

text \<open>
  Claim C9. In all three roles \<^verbatim>\<open>close()\<close> sets the closed flag before it does anything
  else, so the flag is set however the call ends. When a handshake inside \<^verbatim>\<open>close()\<close> fails,
  the object stays marked closed, a later \<^verbatim>\<open>close()\<close> does nothing, and the steps after the
  failure are never made: a worker whose exit message to the source is answered with
  something other than \<^verbatim>\<open>None\<close> never sends its exit message to the sink, and a source
  whose drain or whose exchange with the sink fails never closes its sockets.
\<close>

theorem close_failure_leaves_object_closed:
  "Source.closed (snd (Source_close s)) \<and>
   Sink.closed (snd (Sink_close k)) \<and>
   Worker.closed (snd (Worker_close w)) \<and>
   (\<not> Worker.closed w \<and> \<not> released (Worker.ssock w) \<and>
    inbound (Worker.ssock w) = r # rs \<and> r \<noteq> PyNone \<longrightarrow>
      fst (Worker_close w) = Raised (Error (Invalid_response r)) \<and>
      Worker.tsock (snd (Worker_close w)) = Worker.tsock w \<and>
      Worker_close (snd (Worker_close w)) = (Returned (), snd (Worker_close w))) \<and>
   (\<not> Source.closed s \<and> fst (Source_close s) \<noteq> Returned () \<longrightarrow>
      released (Source.ssock (snd (Source_close s))) = released (Source.ssock s) \<and>
      released (Source.tsock (snd (Source_close s))) = released (Source.tsock s) \<and>
      Source_close (snd (Source_close s)) = (Returned (), snd (Source_close s)))"
proof (intro conjI impI)
  show "Source.closed (snd (Source_close s))" by (rule Source_close_sets_closed)
  show "Sink.closed (snd (Sink_close k))" by (rule Sink_close_sets_closed)
  show "Worker.closed (snd (Worker_close w))" by (rule Worker_close_sets_closed)
next
  assume a: "\<not> Worker.closed w \<and> \<not> released (Worker.ssock w) \<and>
    inbound (Worker.ssock w) = r # rs \<and> r \<noteq> PyNone"
  then have c: "Worker_close w =
      (Raised (Error (Invalid_response r)),
       w\<lparr>Worker.closed := True,
         Worker.ssock := (Worker.ssock w)
           \<lparr>inbound := rs, outbound := outbound (Worker.ssock w) @ [WorkerExitedMessage]\<rparr>\<rparr>)"
    by (simp add: Worker_close_def request_ack_bad)
  then show "fst (Worker_close w) = Raised (Error (Invalid_response r))"
    and "Worker.tsock (snd (Worker_close w)) = Worker.tsock w"
    by simp_all
  show "Worker_close (snd (Worker_close w)) = (Returned (), snd (Worker_close w))"
    using Worker_close_sets_closed [of w] by (simp add: Worker_close_def)
next
  assume a: "\<not> Source.closed s \<and> fst (Source_close s) \<noteq> Returned ()"
  obtain res s1 where l: "Source_close_loop (s\<lparr>Source.closed := True\<rparr>) = (res, s1)"
    by fastforce
  from Source_close_loop_frame [OF refl l]
  have f: "Source.tsock s1 = Source.tsock s"
    "released (Source.ssock s1) = released (Source.ssock s)" by simp_all
  from a have c: "Source_close s =
      (if res = Returned () then Source_inform_sink s1 else (res, s1))"
    using Source_close_open [OF _ l] by simp
  with a f Source_inform_sink_frame [of s1]
  show "released (Source.ssock (snd (Source_close s))) = released (Source.ssock s)"
    and "released (Source.tsock (snd (Source_close s))) = released (Source.tsock s)"
    by (auto split: if_splits)
  show "Source_close (snd (Source_close s)) = (Returned (), snd (Source_close s))"
    using Source_close_sets_closed by (rule Source_close_again)
qed

theorem close_failure_leaves_object_closed_witness:
  "Worker_close
     \<lparr>Worker.saddr = ''tcp://a'', taddr = ''tcp://b'',
      ssock = \<lparr>address = ''tcp://a'', inbound = [NoMoreJobsMessage], outbound = [],
               released = False\<rparr>,
      tsock = \<lparr>address = ''tcp://b'', inbound = [PyNone], outbound = [], released = False\<rparr>,
      closed = False\<rparr> =
   (Raised (Error (Invalid_response NoMoreJobsMessage)),
     \<lparr>Worker.saddr = ''tcp://a'', taddr = ''tcp://b'',
      ssock = \<lparr>address = ''tcp://a'', inbound = [], outbound = [WorkerExitedMessage],
               released = False\<rparr>,
      tsock = \<lparr>address = ''tcp://b'', inbound = [PyNone :: string pyobj], outbound = [],
               released = False\<rparr>,
      closed = True\<rparr>) \<and>
   Source_close (Source_init ''tcp://a'' ''tcp://b'' [] [Payload ''busy'']) =
   (Raised (Error (Invalid_response (Payload ''busy''))),
     \<lparr>Source.saddr = ''tcp://a'', taddr = ''tcp://b'',
      ssock = \<lparr>address = ''tcp://a'', inbound = [], outbound = [], released = False\<rparr>,
      tsock = \<lparr>address = ''tcp://b'', inbound = [], outbound = [SourceExitedMessage],
               released = False\<rparr>,
      nworkers = 0, closed = True\<rparr>) \<and>
   \<not> released (Source.ssock (snd (Source_close
       (Source_init ''tcp://a'' ''tcp://b'' [] [Payload ''busy''])))) \<and>
   Source_close (snd (Source_close
       (Source_init ''tcp://a'' ''tcp://b'' [] [Payload ''busy'']))) =
     (Returned (), snd (Source_close
       (Source_init ''tcp://a'' ''tcp://b'' [] [Payload ''busy''])))"
proof -
  have w: "Worker_close
     \<lparr>Worker.saddr = ''tcp://a'', taddr = ''tcp://b'',
      ssock = \<lparr>address = ''tcp://a'', inbound = [NoMoreJobsMessage], outbound = [],
               released = False\<rparr>,
      tsock = \<lparr>address = ''tcp://b'', inbound = [PyNone], outbound = [], released = False\<rparr>,
      closed = False\<rparr> =
   (Raised (Error (Invalid_response NoMoreJobsMessage)),
     \<lparr>Worker.saddr = ''tcp://a'', taddr = ''tcp://b'',
      ssock = \<lparr>address = ''tcp://a'', inbound = [], outbound = [WorkerExitedMessage],
               released = False\<rparr>,
      tsock = \<lparr>address = ''tcp://b'', inbound = [PyNone :: string pyobj], outbound = [],
               released = False\<rparr>,
      closed = True\<rparr>)"
    by code_simp
  have s: "Source_close (Source_init ''tcp://a'' ''tcp://b'' [] [Payload ''busy'']) =
   (Raised (Error (Invalid_response (Payload ''busy''))),
     \<lparr>Source.saddr = ''tcp://a'', taddr = ''tcp://b'',
      ssock = \<lparr>address = ''tcp://a'', inbound = [], outbound = [], released = False\<rparr>,
      tsock = \<lparr>address = ''tcp://b'', inbound = [], outbound = [SourceExitedMessage],
               released = False\<rparr>,
      nworkers = 0, closed = True\<rparr>)"
    by code_simp
  have i: "\<not> Source.closed (Source_init ''tcp://a'' ''tcp://b'' [] [Payload ''busy''])"
    "\<not> released (Source.ssock (Source_init ''tcp://a'' ''tcp://b'' [] [Payload ''busy'']))"
    by (simp_all add: Source_init_def rep_socket_def)
  from close_failure_leaves_object_closed
    [of "Source_init ''tcp://a'' ''tcp://b'' [] [Payload ''busy'']"
        "Sink_init ''tcp://b'' [Payload ''x'']"
        "\<lparr>Worker.saddr = ''tcp://a'', taddr = ''tcp://b'',
      ssock = \<lparr>address = ''tcp://a'', inbound = [NoMoreJobsMessage :: string pyobj], outbound = [],
               released = False\<rparr>,
      tsock = \<lparr>address = ''tcp://b'', inbound = [PyNone], outbound = [], released = False\<rparr>,
      closed = False\<rparr>" NoMoreJobsMessage "[]"]
  show ?thesis using w s i by simp
qed

subsection \<open>\<^verbatim>\<open>Source.close\<close> from start to end\<close>





text \<open>
  Claim C10. When \<^verbatim>\<open>Source.close()\<close> is called on a source that is not closed and whose
  worker count is 0 (or below: the loop test is \<^verbatim>\<open>nworkers > 0\<close>), the drain loop is not
  entered: nothing is received from the reply socket and nothing is sent on it, so no
  \<^verbatim>\<open>NoMoreJobsMessage\<close> goes to anyone, whatever requests are waiting. The call goes
  straight to the sink with \<^verbatim>\<open>SourceExitedMessage\<close> and, when the sink answers \<^verbatim>\<open>None\<close>, closes
  both sockets and returns.
\<close>

theorem Source_close_without_workers:
  assumes "\<not> Source.closed s" and "Source.nworkers s \<le> 0"
  shows "inbound (Source.ssock (snd (Source_close s))) = inbound (Source.ssock s) \<and>
         outbound (Source.ssock (snd (Source_close s))) = outbound (Source.ssock s) \<and>
         (\<not> released (Source.tsock s) \<longrightarrow>
            outbound (Source.tsock (snd (Source_close s))) =
              outbound (Source.tsock s) @ [SourceExitedMessage]) \<and>
         (\<not> released (Source.tsock s) \<and> inbound (Source.tsock s) = PyNone # reps \<longrightarrow>
            Source_close s =
              (Returned (),
               s\<lparr>Source.closed := True,
                 Source.ssock := (Source.ssock s)\<lparr>released := True\<rparr>,
                 Source.tsock := (Source.tsock s)
                   \<lparr>inbound := reps,
                    outbound := outbound (Source.tsock s) @ [SourceExitedMessage],
                    released := True\<rparr>\<rparr>))"
proof -
  define s0 where "s0 = s\<lparr>Source.closed := True\<rparr>"
  have "Source_close_loop s0 = (Returned (), s0)"
    using assms(2) by (intro Source_close_loop_done) (simp add: s0_def)
  then have c: "Source_close s = Source_inform_sink s0"
    using Source_close_open [OF assms(1), of "Returned ()" s0] by (simp add: s0_def)
  have 1: "inbound (Source.ssock (snd (Source_close s))) = inbound (Source.ssock s)"
    and 2: "outbound (Source.ssock (snd (Source_close s))) = outbound (Source.ssock s)"
    using Source_inform_sink_frame [of s0] by (simp_all add: c s0_def)
  have 3: "outbound (Source.tsock (snd (Source_close s))) =
      outbound (Source.tsock s) @ [SourceExitedMessage]" if "\<not> released (Source.tsock s)"
    using that
    by (simp add: c Source_inform_sink_def send_pyobj_def recv_pyobj_def close_socket_def
          s0_def split: list.splits)
  have 4: "Source_close s =
      (Returned (),
       s\<lparr>Source.closed := True,
         Source.ssock := (Source.ssock s)\<lparr>released := True\<rparr>,
         Source.tsock := (Source.tsock s)
           \<lparr>inbound := reps,
            outbound := outbound (Source.tsock s) @ [SourceExitedMessage],
            released := True\<rparr>\<rparr>)"
    if "\<not> released (Source.tsock s) \<and> inbound (Source.tsock s) = PyNone # reps"
    using that
    by (simp add: c Source_inform_sink_def send_pyobj_def recv_pyobj_def close_socket_def
          s0_def)
  from 1 2 3 4 show ?thesis by blast
qed

theorem Source_close_without_workers_witness:
  "Source_close (Source_init ''tcp://a'' ''tcp://b'' [PyNone, WorkerJoinMessage] [PyNone]) =
   (Returned (),
     \<lparr>Source.saddr = ''tcp://a'', taddr = ''tcp://b'',
      ssock = \<lparr>address = ''tcp://a'', inbound = [PyNone, WorkerJoinMessage :: string pyobj],
               outbound = [], released = True\<rparr>,
      tsock = \<lparr>address = ''tcp://b'', inbound = [], outbound = [SourceExitedMessage],
               released = True\<rparr>,
      nworkers = 0, closed = True\<rparr>)"
  using Source_close_without_workers
    [of "Source_init ''tcp://a'' ''tcp://b'' [PyNone, WorkerJoinMessage] [PyNone :: string pyobj]"
        "[]"]
  by (simp add: Source_init_def rep_socket_def req_socket_def)

subsection \<open>After \<^verbatim>\<open>Source.close()\<close> has been called\<close>





subsection \<open>Results on their way from a worker to the consumer\<close>







end
